theory Spec2Isabelle
  imports Complex_Main "HOL-Library.AList" "HOL-Library.Log_Nat"
begin

section \<open>Benchmark visualisation pipeline of temporal-slab (tools/plot\_bench.py)\<close>

text \<open>
  The theory embeds the decision logic of \<^verbatim>\<open>tools/plot_bench.py\<close>: the loader, the
  classification of rows by the columns they have, the statistics each renderer derives,
  and the order in which \<^verbatim>\<open>main\<close> calls the renderers.

  Conventions of the embedding.
  \<^item> A row of \<^verbatim>\<open>csv.DictReader\<close> is a finite map from column names to the raw strings
    of the cells. Every cell is a string: a row shorter or longer than the header, for
    which \<^verbatim>\<open>DictReader\<close> stores \<^verbatim>\<open>None\<close>, is not covered.
  \<^item> What the program takes from Python and numpy for numbers is a parameter of every
    function that uses it (the record \<open>builtins\<close>): the conversions \<^verbatim>\<open>int(s)\<close> and
    \<^verbatim>\<open>float(s)\<close>, any functions from strings to optional numbers with \<open>None\<close>
    standing for \<^verbatim>\<open>ValueError\<close>; the subtraction, division and multiplication of
    floats; and \<^verbatim>\<open>np.mean\<close>. The general theorems hold for every choice of them, the
    rounding of IEEE doubles included.
  \<^item> A float is represented by the rational number it denotes (infinities and nan
    are not covered). Two instances of the parameters are used for concrete runs:
    \<open>decimal\<close>, with exact arithmetic, and \<open>doubles\<close>, with every result rounded to the
    nearest double.
  \<^item> An exception is a value: a function that can raise returns \<open>py_error + 'a\<close>, with
    \<open>Inl\<close> for the exception.
  \<^item> What a renderer does to the outside world is the list of its events, in order: a
    line printed on the error stream, a line printed on the standard stream, or a
    figure saved under a path together with the data series drawn in it. Colours,
    labels and the other fixed style directives of matplotlib are not modelled, and
    the plotting calls are taken to succeed.
  \<^item> Parsing the command line, creating the output directory and the check at import
    time that matplotlib is installed are outside the embedding.
\<close>

subsection \<open>Rows, exceptions, conversions\<close>

type_synonym path = string

type_synonym row = "string \<rightharpoonup> string"

datatype pykey = StrKey string | IntKey int

datatype py_error = KeyError pykey | ValueError string | ZeroDivisionError

record builtins =
  py_int :: "string \<Rightarrow> int option"
  py_float :: "string \<Rightarrow> rat option"
  float_sub :: "rat \<Rightarrow> rat \<Rightarrow> rat"
  float_div :: "rat \<Rightarrow> rat \<Rightarrow> rat"
  float_mul :: "rat \<Rightarrow> rat \<Rightarrow> rat"
  np_mean :: "rat list \<Rightarrow> rat"

text \<open>\<^verbatim>\<open>row[k]\<close>: a missing key raises \<^verbatim>\<open>KeyError\<close>.\<close>

definition getitem :: "row \<Rightarrow> string \<Rightarrow> py_error + string" where
  "getitem r k = (case r k of None \<Rightarrow> Inl (KeyError (StrKey k)) | Some v \<Rightarrow> Inr v)"

text \<open>\<^verbatim>\<open>int(s)\<close> and \<^verbatim>\<open>float(s)\<close> on a string: the exception carries the literal.\<close>

definition to_int :: "builtins \<Rightarrow> string \<Rightarrow> py_error + int" where
  "to_int B s = (case py_int B s of None \<Rightarrow> Inl (ValueError s) | Some n \<Rightarrow> Inr n)"

definition to_float :: "builtins \<Rightarrow> string \<Rightarrow> py_error + rat" where
  "to_float B s = (case py_float B s of None \<Rightarrow> Inl (ValueError s) | Some x \<Rightarrow> Inr x)"

text \<open>\<^verbatim>\<open>int(row[k])\<close> and \<^verbatim>\<open>float(row[k])\<close>: the lookup is evaluated first.\<close>

definition int_item :: "builtins \<Rightarrow> row \<Rightarrow> string \<Rightarrow> py_error + int" where
  "int_item B r k = (case getitem r k of Inl e \<Rightarrow> Inl e | Inr s \<Rightarrow> to_int B s)"

definition float_item :: "builtins \<Rightarrow> row \<Rightarrow> string \<Rightarrow> py_error + rat" where
  "float_item B r k = (case getitem r k of Inl e \<Rightarrow> Inl e | Inr s \<Rightarrow> to_float B s)"

text \<open>\<^verbatim>\<open>float(row.get(k, 0))\<close>: a missing key gives \<^verbatim>\<open>float(0)\<close>.\<close>

definition float_get :: "builtins \<Rightarrow> row \<Rightarrow> string \<Rightarrow> py_error + rat" where
  "float_get B r k = (case r k of None \<Rightarrow> Inr 0 | Some s \<Rightarrow> to_float B s)"

text \<open>
  A list comprehension \<^verbatim>\<open>[f(x) for x in xs]\<close> whose element expression can raise: the
  elements are evaluated from left to right and the first exception ends the evaluation.
\<close>

fun comprehension :: "('a \<Rightarrow> py_error + 'b) \<Rightarrow> 'a list \<Rightarrow> py_error + 'b list" where
  "comprehension f [] = Inr []"
| "comprehension f (x # xs) =
     (case f x of
        Inl e \<Rightarrow> Inl e
      | Inr y \<Rightarrow> (case comprehension f xs of Inl e \<Rightarrow> Inl e | Inr ys \<Rightarrow> Inr (y # ys)))"

subsection \<open>Charts and events\<close>

text \<open>The data series of each of the five figures.\<close>

datatype chart =
    LatencyPercentiles "rat list" "rat list"
  | LatencyCdf "rat list"
  | Fragmentation "int list" "rat list" "rat list"
  | RssOverTime "int list" "rat list" "(rat \<times> rat \<times> rat) option" "int list" "int list"
  | SummaryCard rat rat rat rat

text \<open>The lines the program prints, by content.\<close>

datatype message =
    NoFragmentationData
  | NoLatencyData
  | NoAllocationLatencyData
  | NoRssChurnData
  | NoCsvFilesFound path
  | RunBenchmarksFirst
  | NoDataLoaded
  | FoundCsvFiles nat path
  | Loading path
  | LoadedRows nat nat nat
  | GeneratingVisualizations
  | Generated path
  | AllChartsGenerated path
  | NextStep

datatype event = Stderr message | Stdout message | Savefig path chart

text \<open>\<^verbatim>\<open>output_dir / name\<close>.\<close>

definition joinpath :: "path \<Rightarrow> string \<Rightarrow> path" where
  "joinpath d name = d @ ''/'' @ name"

text \<open>The paths under which a run has saved figures, in order.\<close>

fun saved :: "event list \<Rightarrow> path list" where
  "saved [] = []"
| "saved (Savefig p c # evs) = p # saved evs"
| "saved (_ # evs) = saved evs"


subsection \<open>The loader\<close>

text \<open>
  The file system at load time: a path that exists is mapped to the rows
  \<^verbatim>\<open>csv.DictReader\<close> reads from it.
\<close>

type_synonym filesystem = "path \<rightharpoonup> row list"

definition load_csv :: "filesystem \<Rightarrow> path \<Rightarrow> row list" where
  "load_csv fs p = (case fs p of None \<Rightarrow> [] | Some rows \<Rightarrow> rows)"

text \<open>The loop of \<^verbatim>\<open>main\<close> that extends \<^verbatim>\<open>all_data\<close> file by file.\<close>

fun load_all :: "filesystem \<Rightarrow> path list \<Rightarrow> row list \<Rightarrow> row list" where
  "load_all fs [] all_data = all_data"
| "load_all fs (csv_file # csv_files) all_data =
     load_all fs csv_files (all_data @ load_csv fs csv_file)"

subsection \<open>Classification\<close>

definition latency_rows :: "row list \<Rightarrow> row list" where
  "latency_rows all_data = filter (\<lambda>r. r ''op'' \<noteq> None) all_data"

definition frag_rows :: "row list \<Rightarrow> row list" where
  "frag_rows all_data =
     filter (\<lambda>r. r ''efficiency_pct'' \<noteq> None \<and> r ''op'' = None) all_data"

definition rss_rows :: "row list \<Rightarrow> row list" where
  "rss_rows all_data = filter (\<lambda>r. r ''cycle'' \<noteq> None \<and> r ''rss_mib'' \<noteq> None) all_data"

subsection \<open>plot\_fragmentation\<close>

record agg =
  requested :: "int list"
  wasted :: "int list"
  efficiency :: "rat list"

text \<open>
  The dictionary \<^verbatim>\<open>size_classes\<close> is an association list in insertion order.
  \<open>add_sample\<close> is the body of the loop after the four conversions: the entry of the
  class is created when the class is new, and the three values are appended to it.
\<close>

definition add_sample ::
  "int \<Rightarrow> int \<Rightarrow> int \<Rightarrow> rat \<Rightarrow> (int \<times> agg) list \<Rightarrow> (int \<times> agg) list" where
  "add_sample sc rq w ef size_classes =
     (let a = (case map_of size_classes sc of
                 None \<Rightarrow> \<lparr>requested = [], wasted = [], efficiency = []\<rparr>
               | Some a \<Rightarrow> a)
      in AList.update sc
           \<lparr>requested = requested a @ [rq], wasted = wasted a @ [w],
            efficiency = efficiency a @ [ef]\<rparr>
           size_classes)"

fun group_rows ::
  "builtins \<Rightarrow> (int \<times> agg) list \<Rightarrow> row list \<Rightarrow> py_error + (int \<times> agg) list" where
  "group_rows B size_classes [] = Inr size_classes"
| "group_rows B size_classes (r # data) =
     (case r ''size_class'' of
        None \<Rightarrow> group_rows B size_classes data
      | Some s \<Rightarrow>
          (case to_int B s of Inl e \<Rightarrow> Inl e | Inr sc \<Rightarrow>
          (case int_item B r ''requested'' of Inl e \<Rightarrow> Inl e | Inr rq \<Rightarrow>
          (case int_item B r ''wasted'' of Inl e \<Rightarrow> Inl e | Inr w \<Rightarrow>
          (case float_item B r ''efficiency_pct'' of Inl e \<Rightarrow> Inl e | Inr ef \<Rightarrow>
             group_rows B (add_sample sc rq w ef size_classes) data)))))"

text \<open>\<^verbatim>\<open>size_classes[sc]\<close>.\<close>

definition class_item :: "(int \<times> agg) list \<Rightarrow> int \<Rightarrow> py_error + agg" where
  "class_item size_classes sc =
     (case map_of size_classes sc of None \<Rightarrow> Inl (KeyError (IntKey sc)) | Some a \<Rightarrow> Inr a)"

definition plot_fragmentation :: "builtins \<Rightarrow> row list \<Rightarrow> path \<Rightarrow> py_error + event list" where
  "plot_fragmentation B data output_dir =
     (if data = [] then Inr [Stderr NoFragmentationData]
      else
        (case group_rows B [] data of Inl e \<Rightarrow> Inl e | Inr size_classes \<Rightarrow>
           (let classes = sort (map fst size_classes) in
            (case comprehension
                    (\<lambda>sc. case class_item size_classes sc of
                            Inl e \<Rightarrow> Inl e
                          | Inr a \<Rightarrow> Inr (np_mean B (map of_int (wasted a))))
                    classes of
               Inl e \<Rightarrow> Inl e
             | Inr avg_waste \<Rightarrow>
            (case comprehension
                    (\<lambda>sc. case class_item size_classes sc of
                            Inl e \<Rightarrow> Inl e
                          | Inr a \<Rightarrow> Inr (np_mean B (efficiency a)))
                    classes of
               Inl e \<Rightarrow> Inl e
             | Inr avg_efficiency \<Rightarrow>
                (let output_path = joinpath output_dir ''fragmentation.png''
                 in Inr [Savefig output_path (Fragmentation classes avg_waste avg_efficiency),
                         Stdout (Generated output_path)]))))))"

subsection \<open>The latency renderers\<close>

definition metrics :: "string list" where
  "metrics = [''p50_ns'', ''p95_ns'', ''p99_ns'', ''p999_ns'']"

definition plot_latency_comparison ::
  "builtins \<Rightarrow> row list \<Rightarrow> path \<Rightarrow> py_error + event list" where
  "plot_latency_comparison B data output_dir =
     (if data = [] then Inr [Stderr NoLatencyData]
      else
        (let alloc_data = filter (\<lambda>r. r ''op'' = Some ''alloc'') data;
             free_data = filter (\<lambda>r. r ''op'' = Some ''free'') data
         in case alloc_data of
              [] \<Rightarrow> Inr [Stderr NoAllocationLatencyData]
            | alloc_row # _ \<Rightarrow>
                (case comprehension (float_get B alloc_row) metrics of
                   Inl e \<Rightarrow> Inl e
                 | Inr alloc_vals \<Rightarrow>
                (case comprehension
                        (\<lambda>m. case free_data of
                               [] \<Rightarrow> Inr 0
                             | free_row # _ \<Rightarrow> float_get B free_row m)
                        metrics of
                   Inl e \<Rightarrow> Inl e
                 | Inr free_vals \<Rightarrow>
                    (let output_path = joinpath output_dir ''latency_percentiles.png''
                     in Inr [Savefig output_path (LatencyPercentiles alloc_vals free_vals),
                             Stdout (Generated output_path)])))))"

definition plot_latency_cdf :: "builtins \<Rightarrow> row list \<Rightarrow> path \<Rightarrow> py_error + event list" where
  "plot_latency_cdf B data output_dir =
     (let alloc_data = filter (\<lambda>r. r ''op'' = Some ''alloc'') data
      in case alloc_data of
           [] \<Rightarrow> Inr []
         | r # _ \<Rightarrow>
             (case comprehension (float_get B r)
                     [''p50_ns'', ''p95_ns'', ''p99_ns'', ''p999_ns''] of
                Inl e \<Rightarrow> Inl e
              | Inr latencies \<Rightarrow>
                 (let output_path = joinpath output_dir ''latency_cdf.png''
                  in Inr [Savefig output_path (LatencyCdf latencies),
                          Stdout (Generated output_path)])))"

subsection \<open>plot\_rss\_over\_time\<close>

text \<open>
  The growth annotation: \<^verbatim>\<open>((rss_final - rss_initial) / rss_initial) * 100\<close>, under
  \<^verbatim>\<open>if rss_values:\<close>. Python raises \<^verbatim>\<open>ZeroDivisionError\<close> when a float is divided by
  zero. The annotation holds the initial value, the final value and the growth.
\<close>

definition growth_annotation ::
  "builtins \<Rightarrow> rat list \<Rightarrow> py_error + (rat \<times> rat \<times> rat) option" where
  "growth_annotation B rss_values =
     (case rss_values of
        [] \<Rightarrow> Inr None
      | rss_initial # _ \<Rightarrow>
          (let rss_final = last rss_values
           in if rss_initial = 0 then Inl ZeroDivisionError
              else Inr (Some (rss_initial, rss_final,
                              float_mul B
                                (float_div B (float_sub B rss_final rss_initial) rss_initial)
                                100))))"

definition plot_rss_over_time :: "builtins \<Rightarrow> row list \<Rightarrow> path \<Rightarrow> py_error + event list" where
  "plot_rss_over_time B data output_dir =
     (if data = [] then Inr [Stderr NoRssChurnData]
      else
        (case comprehension (\<lambda>r. int_item B r ''cycle'') data of
           Inl e \<Rightarrow> Inl e | Inr cycles \<Rightarrow>
        (case comprehension (\<lambda>r. float_item B r ''rss_mib'') data of
           Inl e \<Rightarrow> Inl e | Inr rss_values \<Rightarrow>
        (case comprehension (\<lambda>r. int_item B r ''slabs_allocated'') data of
           Inl e \<Rightarrow> Inl e | Inr allocated \<Rightarrow>
        (case comprehension (\<lambda>r. int_item B r ''slabs_recycled'') data of
           Inl e \<Rightarrow> Inl e | Inr recycled \<Rightarrow>
        (case growth_annotation B rss_values of
           Inl e \<Rightarrow> Inl e | Inr growth \<Rightarrow>
             (let output_path = joinpath output_dir ''rss_over_time.png''
              in Inr [Savefig output_path
                        (RssOverTime cycles rss_values growth allocated recycled),
                      Stdout (Generated output_path)])))))))"

subsection \<open>plot\_summary\_card\<close>

text \<open>
  \<^verbatim>\<open>next((r for r in latency_data if r.get('op') == 'alloc'), {})\<close>: the first row whose
  \<^verbatim>\<open>op\<close> is \<^verbatim>\<open>alloc\<close>, the empty dictionary when there is none.
\<close>

definition first_alloc_row :: "row list \<Rightarrow> row" where
  "first_alloc_row latency_data =
     (case find (\<lambda>r. r ''op'' = Some ''alloc'') latency_data of
        None \<Rightarrow> Map.empty
      | Some r \<Rightarrow> r)"

definition plot_summary_card ::
  "builtins \<Rightarrow> row list \<Rightarrow> row list \<Rightarrow> path \<Rightarrow> py_error + event list" where
  "plot_summary_card B latency_data frag_data output_dir =
     (let alloc_row = first_alloc_row latency_data in
      (case float_get B alloc_row ''p50_ns'' of Inl e \<Rightarrow> Inl e | Inr p50 \<Rightarrow>
      (case float_get B alloc_row ''p99_ns'' of Inl e \<Rightarrow> Inl e | Inr p99 \<Rightarrow>
      (case float_get B alloc_row ''p999_ns'' of Inl e \<Rightarrow> Inl e | Inr p999 \<Rightarrow>
      (case (if frag_data = [] then Inr 0
             else
               (case comprehension (\<lambda>r. float_item B r ''efficiency_pct'')
                       (filter (\<lambda>r. r ''efficiency_pct'' \<noteq> None) frag_data) of
                  Inl e \<Rightarrow> Inl e
                | Inr efficiencies \<Rightarrow>
                    Inr (if efficiencies = [] then 0 else np_mean B efficiencies))) of
         Inl e \<Rightarrow> Inl e
       | Inr avg_efficiency \<Rightarrow>
          (let output_path = joinpath output_dir ''summary.png''
           in Inr [Savefig output_path (SummaryCard p50 p99 p999 avg_efficiency),
                   Stdout (Generated output_path)]))))))"

subsection \<open>main\<close>

record args =
  args_input :: path
  args_output :: path

datatype outcome = Exit nat | Uncaught py_error

text \<open>
  Statements that can raise, run in order: the events of the ones that returned are kept,
  the first exception ends the run and is not caught.
\<close>

fun run_all :: "(py_error + event list) list \<Rightarrow> event list \<times> py_error option" where
  "run_all [] = ([], None)"
| "run_all (Inl e # rest) = ([], Some e)"
| "run_all (Inr evs # rest) = (case run_all rest of (evs', r) \<Rightarrow> (evs @ evs', r))"

text \<open>The five guarded calls at the end of \<^verbatim>\<open>main\<close>, in the order of the source.\<close>

definition renderer_calls ::
  "builtins \<Rightarrow> row list \<Rightarrow> row list \<Rightarrow> row list \<Rightarrow> path \<Rightarrow> (py_error + event list) list" where
  "renderer_calls B latency_data frag_data rss_data output_dir =
     [if latency_data \<noteq> [] then plot_latency_comparison B latency_data output_dir else Inr [],
      if latency_data \<noteq> [] then plot_latency_cdf B latency_data output_dir else Inr [],
      if frag_data \<noteq> [] then plot_fragmentation B frag_data output_dir else Inr [],
      if rss_data \<noteq> [] then plot_rss_over_time B rss_data output_dir else Inr [],
      if latency_data \<noteq> [] \<or> frag_data \<noteq> []
      then plot_summary_card B latency_data frag_data output_dir else Inr []]"

text \<open>
  \<open>csv_files\<close> is the result of \<^verbatim>\<open>args.input.glob('*.csv')\<close>; \<open>fs\<close> is the file system
  when the files are loaded.
\<close>

definition main :: "builtins \<Rightarrow> filesystem \<Rightarrow> args \<Rightarrow> path list \<Rightarrow> event list \<times> outcome" where
  "main B fs a csv_files =
     (if csv_files = []
      then ([Stderr (NoCsvFilesFound (args_input a)), Stderr RunBenchmarksFirst], Exit 1)
      else
        (let found = [Stdout (FoundCsvFiles (length csv_files) (args_input a))];
             loading = map (\<lambda>csv_file. Stdout (Loading csv_file)) csv_files;
             all_data = load_all fs csv_files []
         in if all_data = [] then (found @ loading @ [Stderr NoDataLoaded], Exit 1)
            else
              (let latency_data = latency_rows all_data;
                   frag_data = frag_rows all_data;
                   rss_data = rss_rows all_data;
                   counts = [Stdout (LoadedRows (length latency_data) (length frag_data)
                                       (length rss_data)),
                             Stdout GeneratingVisualizations]
               in case run_all
                         (renderer_calls B latency_data frag_data rss_data (args_output a)) of
                    (charts, Some e) \<Rightarrow> (found @ loading @ counts @ charts, Uncaught e)
                  | (charts, None) \<Rightarrow>
                      (found @ loading @ counts @ charts
                         @ [Stdout (AllChartsGenerated (args_output a)), Stdout NextStep],
                       Exit 0))))"

text \<open>The exit status of the process: an uncaught exception ends Python with status 1.\<close>

fun exit_status :: "outcome \<Rightarrow> nat" where
  "exit_status (Exit n) = n"
| "exit_status (Uncaught e) = 1"

subsection \<open>Malformed fields\<close>


definition bad_float :: "builtins \<Rightarrow> row \<Rightarrow> string \<Rightarrow> bool" where
  "bad_float B r k = (case r k of None \<Rightarrow> False | Some s \<Rightarrow> py_float B s = None)"



subsection \<open>The statistics as the specification words them\<close>

text \<open>
  A fragmentation Record with its four fields converted: size class, requested bytes,
  wasted bytes, efficiency percentage.
\<close>

datatype sample =
  Sample (sample_class: int) (sample_requested: int) (sample_wasted: int)
    (sample_efficiency: rat)

definition frag_sample :: "builtins \<Rightarrow> row \<Rightarrow> sample option" where
  "frag_sample B r =
     (case r ''size_class'' of None \<Rightarrow> None | Some s \<Rightarrow>
     (case py_int B s of None \<Rightarrow> None | Some sc \<Rightarrow>
     (case r ''requested'' of None \<Rightarrow> None | Some q \<Rightarrow>
     (case py_int B q of None \<Rightarrow> None | Some rq \<Rightarrow>
     (case r ''wasted'' of None \<Rightarrow> None | Some w \<Rightarrow>
     (case py_int B w of None \<Rightarrow> None | Some wv \<Rightarrow>
     (case r ''efficiency_pct'' of None \<Rightarrow> None | Some e \<Rightarrow>
     (case py_float B e of None \<Rightarrow> None | Some ef \<Rightarrow>
        Some (Sample sc rq wv ef)))))))))"

text \<open>
  ``For each distinct size-class integer, compute the mean of wasted and the mean of
  efficiency\_pct across that class's Records. Size classes are then sorted ascending by
  the integer value.''
\<close>

definition spec_size_classes :: "sample list \<Rightarrow> int list" where
  "spec_size_classes samples = sort (remdups (map sample_class samples))"

definition spec_mean_wasted :: "builtins \<Rightarrow> sample list \<Rightarrow> int \<Rightarrow> rat" where
  "spec_mean_wasted B samples sc =
     np_mean B
       (map (\<lambda>s. of_int (sample_wasted s)) (filter (\<lambda>s. sample_class s = sc) samples))"

definition spec_mean_efficiency :: "builtins \<Rightarrow> sample list \<Rightarrow> int \<Rightarrow> rat" where
  "spec_mean_efficiency B samples sc =
     np_mean B (map sample_efficiency (filter (\<lambda>s. sample_class s = sc) samples))"



subsection \<open>Auxiliary notions of the proofs\<close>

text \<open>One pass of the grouping loop on a converted Record, and the entry of a class.\<close>

definition add_one :: "(int \<times> agg) list \<Rightarrow> sample \<Rightarrow> (int \<times> agg) list" where
  "add_one m s = add_sample (sample_class s) (sample_requested s) (sample_wasted s)
                   (sample_efficiency s) m"

definition agg_of :: "(int \<times> agg) list \<Rightarrow> int \<Rightarrow> agg" where
  "agg_of m sc = (case map_of m sc of
                    None \<Rightarrow> \<lparr>requested = [], wasted = [], efficiency = []\<rparr>
                  | Some a \<Rightarrow> a)"

subsection \<open>An instance of the parameters\<close>

text \<open>
  For concrete runs the conversions are instantiated by readers of plain decimal
  literals: an optional minus sign and decimal digits for \<^verbatim>\<open>int\<close>, the same with an
  optional fraction after a point for \<^verbatim>\<open>float\<close>. Python's \<^verbatim>\<open>int\<close> and \<^verbatim>\<open>float\<close>
  accept these literals with the same value, and they reject, as the readers do, the
  cells \<^verbatim>\<open>abc\<close>, \<^verbatim>\<open>n/a\<close> and \<^verbatim>\<open>warmup\<close> of the runs below. The arithmetic of the
  instance is exact, and its mean is the exact mean: it agrees with the doubles of
  Python wherever the operands and the exact result are doubles, as they are in the runs
  below (small integers, and halves of them).
\<close>

definition exact_mean :: "rat list \<Rightarrow> rat" where
  "exact_mean xs = sum_list xs / of_nat (length xs)"

definition digit_of :: "char \<Rightarrow> nat option" where
  "digit_of =
     map_of [(CHR ''0'', 0), (CHR ''1'', 1), (CHR ''2'', 2), (CHR ''3'', 3), (CHR ''4'', 4),
             (CHR ''5'', 5), (CHR ''6'', 6), (CHR ''7'', 7), (CHR ''8'', 8), (CHR ''9'', 9)]"

fun digits_of :: "string \<Rightarrow> nat \<Rightarrow> nat option" where
  "digits_of [] acc = Some acc"
| "digits_of (c # cs) acc =
     (case digit_of c of None \<Rightarrow> None | Some d \<Rightarrow> digits_of cs (10 * acc + d))"

definition dec_nat :: "string \<Rightarrow> nat option" where
  "dec_nat s = (if s = [] then None else digits_of s 0)"

definition dec_int :: "string \<Rightarrow> int option" where
  "dec_int s =
     (case s of
        [] \<Rightarrow> None
      | c # cs \<Rightarrow>
          if c = CHR ''-'' then map_option (\<lambda>n. - int n) (dec_nat cs)
          else map_option int (dec_nat s))"

definition dec_unsigned :: "string \<Rightarrow> rat option" where
  "dec_unsigned s =
     (let ip = takeWhile (\<lambda>c. c \<noteq> CHR ''.'') s;
          rest = dropWhile (\<lambda>c. c \<noteq> CHR ''.'') s
      in case rest of
           [] \<Rightarrow> map_option of_nat (dec_nat ip)
         | _ # fp \<Rightarrow>
             (case dec_nat ip of
                None \<Rightarrow> None
              | Some i \<Rightarrow>
                  (case dec_nat fp of
                     None \<Rightarrow> None
                   | Some f \<Rightarrow> Some (of_nat i + of_nat f / 10 ^ length fp))))"

definition dec_float :: "string \<Rightarrow> rat option" where
  "dec_float s =
     (case s of
        [] \<Rightarrow> None
      | c # cs \<Rightarrow>
          if c = CHR ''-'' then map_option uminus (dec_unsigned cs) else dec_unsigned s)"

definition decimal :: builtins where
  "decimal = \<lparr>py_int = dec_int, py_float = dec_float,
              float_sub = (\<lambda>x y. x - y), float_div = (\<lambda>x y. x / y),
              float_mul = (\<lambda>x y. x * y), np_mean = exact_mean\<rparr>"

subsection \<open>Double precision\<close>

text \<open>
  \<open>fl x\<close> is the double nearest to \<open>x\<close>: \<open>x\<close> is rounded to a multiple of
  \<open>2\<^sup>e\<^sup>-\<^sup>5\<^sup>2\<close>, where \<open>2\<^sup>e \<le> \<bar>x\<bar> < 2\<^sup>e\<^sup>+\<^sup>1\<close>, a tie going to the even multiple
  (IEEE 754 binary64, round to nearest, ties to even). The exponent is not bounded:
  the definition is the rounding of doubles in their normal range, without overflow and
  without subnormal numbers.
\<close>

definition round_half_even :: "rat \<Rightarrow> int" where
  "round_half_even x =
     (let n = \<lfloor>x\<rfloor>; d = x - of_int n
      in if d < 1 / 2 then n else if 1 / 2 < d then n + 1 else if even n then n else n + 1)"

definition log2_floor :: "rat \<Rightarrow> int" where
  "log2_floor x = (if 1 \<le> x then bitlen \<lfloor>x\<rfloor> - 1 else - bitlen (\<lceil>1 / x\<rceil> - 1))"

definition pow2 :: "int \<Rightarrow> rat" where
  "pow2 e = (if 0 \<le> e then 2 ^ nat e else 1 / 2 ^ nat (- e))"

definition fl :: "rat \<Rightarrow> rat" where
  "fl x =
     (if x = 0 then 0
      else (let u = pow2 (log2_floor \<bar>x\<bar> - 52)
            in of_int (round_half_even (x / u)) * u))"

text \<open>
  The arithmetic of Python's floats: \<^verbatim>\<open>float(s)\<close> is the double nearest to the decimal
  literal, and a difference, a quotient or a product is the double nearest to the exact
  result. The instance is used for runs of \<^verbatim>\<open>plot_rss_over_time\<close>, which does not call
  \<^verbatim>\<open>np.mean\<close>; its mean is the one of \<open>decimal\<close>.
\<close>

definition doubles :: builtins where
  "doubles = \<lparr>py_int = dec_int, py_float = (\<lambda>s. map_option fl (dec_float s)),
              float_sub = (\<lambda>x y. fl (x - y)), float_div = (\<lambda>x y. fl (x / y)),
              float_mul = (\<lambda>x y. fl (x * y)), np_mean = exact_mean\<rparr>"

subsection \<open>Example inputs\<close>

definition alloc_row :: row where
  "alloc_row = [''op'' \<mapsto> ''alloc'', ''p50_ns'' \<mapsto> ''30'', ''p95_ns'' \<mapsto> ''110'',
                ''p99_ns'' \<mapsto> ''374'', ''p999_ns'' \<mapsto> ''1137'']"

definition frag_row_a :: row where
  "frag_row_a = [''size_class'' \<mapsto> ''64'', ''requested'' \<mapsto> ''54'', ''wasted'' \<mapsto> ''10'',
                 ''efficiency_pct'' \<mapsto> ''90'']"

definition frag_row_b :: row where
  "frag_row_b = [''size_class'' \<mapsto> ''64'', ''requested'' \<mapsto> ''44'', ''wasted'' \<mapsto> ''20'',
                 ''efficiency_pct'' \<mapsto> ''80'']"

definition rss_row :: row where
  "rss_row = [''cycle'' \<mapsto> ''1'', ''rss_mib'' \<mapsto> ''100.0'', ''slabs_allocated'' \<mapsto> ''5'',
              ''slabs_recycled'' \<mapsto> ''3'']"

text \<open>A row that has \<^verbatim>\<open>op\<close> together with the two columns of an RSS sample.\<close>

definition op_cycle_row :: row where
  "op_cycle_row = [''op'' \<mapsto> ''alloc'', ''cycle'' \<mapsto> ''1'', ''rss_mib'' \<mapsto> ''100.0'']"

definition later_alloc_row :: row where
  "later_alloc_row = [''op'' \<mapsto> ''alloc'', ''p50_ns'' \<mapsto> ''45'', ''p95_ns'' \<mapsto> ''200'',
                      ''p99_ns'' \<mapsto> ''900'', ''p999_ns'' \<mapsto> ''5000'']"

definition free_row :: row where
  "free_row = [''op'' \<mapsto> ''free'', ''p50_ns'' \<mapsto> ''25'', ''p95_ns'' \<mapsto> ''90'',
               ''p99_ns'' \<mapsto> ''300'', ''p999_ns'' \<mapsto> ''1000'']"



text \<open>
  The two Records of the specification's fragmentation example with the three fields it
  lists: size class, wasted bytes, efficiency.
\<close>

definition frag_row_c :: row where
  "frag_row_c = [''size_class'' \<mapsto> ''64'', ''wasted'' \<mapsto> ''10'', ''efficiency_pct'' \<mapsto> ''90'']"

definition frag_row_d :: row where
  "frag_row_d = [''size_class'' \<mapsto> ''64'', ''wasted'' \<mapsto> ''20'', ''efficiency_pct'' \<mapsto> ''80'']"

text \<open>An allocation row whose median is not a number.\<close>

definition bad_alloc_row :: row where
  "bad_alloc_row = [''op'' \<mapsto> ''alloc'', ''p50_ns'' \<mapsto> ''n/a'', ''p95_ns'' \<mapsto> ''110'',
                    ''p99_ns'' \<mapsto> ''374'', ''p999_ns'' \<mapsto> ''1137'']"


text \<open>Three RSS samples with the values 100.0, 100.0 and 102.4 MiB.\<close>

definition rss_sample_0 :: row where
  "rss_sample_0 = [''cycle'' \<mapsto> ''0'', ''rss_mib'' \<mapsto> ''100.0'', ''slabs_allocated'' \<mapsto> ''4'',
                   ''slabs_recycled'' \<mapsto> ''0'']"

definition rss_sample_1 :: row where
  "rss_sample_1 = [''cycle'' \<mapsto> ''1'', ''rss_mib'' \<mapsto> ''100.0'', ''slabs_allocated'' \<mapsto> ''5'',
                   ''slabs_recycled'' \<mapsto> ''3'']"

definition rss_sample_2 :: row where
  "rss_sample_2 = [''cycle'' \<mapsto> ''2'', ''rss_mib'' \<mapsto> ''102.4'', ''slabs_allocated'' \<mapsto> ''6'',
                   ''slabs_recycled'' \<mapsto> ''4'']"

text \<open>An RSS sample of zero MiB.\<close>

definition zero_rss_sample :: row where
  "zero_rss_sample = [''cycle'' \<mapsto> ''0'', ''rss_mib'' \<mapsto> ''0.0'', ''slabs_allocated'' \<mapsto> ''0'',
                      ''slabs_recycled'' \<mapsto> ''0'']"

text \<open>A row that no group takes.\<close>

definition unclassified_row :: row where
  "unclassified_row = [''threads'' \<mapsto> ''4'']"

definition example_args :: args where
  "example_args = \<lparr>args_input = ''benchmarks/results'', args_output = ''docs/images''\<rparr>"


section \<open>Properties\<close>

subsection \<open>Loader\<close>

lemma load_all_append:
  "load_all fs csv_files acc = acc @ concat (List.map_filter fs csv_files)"
  by (induction csv_files arbitrary: acc) (simp_all add: load_csv_def split: option.split)

text \<open>
  Claim C9. A path that does not exist when it is loaded gives no rows, and the load
  goes on: the collection \<^verbatim>\<open>main\<close> builds is the concatenation of the rows of the files
  that exist, in the order in which the files were discovered.
\<close>

theorem missing_file_contributes_no_rows:
  "(fs p = None \<longrightarrow> load_csv fs p = []) \<and>
   load_all fs csv_files [] =
     concat (map (\<lambda>p. the (fs p)) (filter (\<lambda>p. fs p \<noteq> None) csv_files))"
proof -
  have "List.map_filter fs csv_files =
          map (\<lambda>p. the (fs p)) (filter (\<lambda>p. fs p \<noteq> None) csv_files)"
    by (simp add: List.map_filter_def comp_def)
  then show ?thesis
    by (simp add: load_all_append load_csv_def)
qed

theorem missing_file_contributes_no_rows_witness:
  "[''a.csv'' \<mapsto> [frag_row_a], ''c.csv'' \<mapsto> [rss_row]] ''b.csv'' = None \<and>
   load_csv [''a.csv'' \<mapsto> [frag_row_a], ''c.csv'' \<mapsto> [rss_row]] ''b.csv'' = [] \<and>
   load_all [''a.csv'' \<mapsto> [frag_row_a], ''c.csv'' \<mapsto> [rss_row]]
     [''a.csv'', ''b.csv'', ''c.csv''] [] = [frag_row_a, rss_row]"
  using missing_file_contributes_no_rows
          [of "[''a.csv'' \<mapsto> [frag_row_a], ''c.csv'' \<mapsto> [rss_row]]" "''b.csv''"
              "[''a.csv'', ''b.csv'', ''c.csv'']"]
  by (simp add: load_csv_def)

subsection \<open>Classification\<close>

text \<open>
  Claim C1, as stated, fails: a row with \<^verbatim>\<open>op\<close>, \<^verbatim>\<open>cycle\<close> and \<^verbatim>\<open>rss_mib\<close> is placed in
  the latency group and in the RSS group.
\<close>

theorem op_row_in_two_groups_counterexample:
  "op_cycle_row ''op'' \<noteq> None \<and>
   latency_rows [op_cycle_row] = [op_cycle_row] \<and>
   rss_rows [op_cycle_row] = [op_cycle_row]"
  by (simp add: op_cycle_row_def latency_rows_def rss_rows_def)

text \<open>
  Claim C1, amended. A row that has the column \<^verbatim>\<open>op\<close> is placed in the latency group
  and never in the fragmentation group, whatever other columns it has; it is placed in
  the RSS group as well exactly when it has both \<^verbatim>\<open>cycle\<close> and \<^verbatim>\<open>rss_mib\<close>. No row is
  in both the latency and the fragmentation group.
\<close>

theorem op_row_classification:
  assumes "r \<in> set all_data" and "r ''op'' \<noteq> None"
  shows "r \<in> set (latency_rows all_data) \<and>
         r \<notin> set (frag_rows all_data) \<and>
         (r \<in> set (rss_rows all_data) \<longleftrightarrow> r ''cycle'' \<noteq> None \<and> r ''rss_mib'' \<noteq> None) \<and>
         set (latency_rows all_data) \<inter> set (frag_rows all_data) = {}"
  using assms by (auto simp: latency_rows_def frag_rows_def rss_rows_def)

theorem op_row_classification_witness:
  "alloc_row \<in> set [frag_row_a, alloc_row, rss_row] \<and> alloc_row ''op'' \<noteq> None \<and>
   alloc_row \<in> set (latency_rows [frag_row_a, alloc_row, rss_row]) \<and>
   alloc_row \<notin> set (frag_rows [frag_row_a, alloc_row, rss_row]) \<and>
   alloc_row \<notin> set (rss_rows [frag_row_a, alloc_row, rss_row])"
proof -
  have m: "alloc_row \<in> set [frag_row_a, alloc_row, rss_row]"
    by simp
  have o: "alloc_row ''op'' \<noteq> None" and c: "alloc_row ''cycle'' = None"
    by (simp_all add: alloc_row_def)
  show ?thesis
    using op_row_classification [OF m o] m o c by simp
qed

subsection \<open>Exceptions in comprehensions and in the sequence of calls\<close>



lemma comprehension_returns:
  assumes "\<forall>x\<in>set xs. f x = Inr (g x)"
  shows "comprehension f xs = Inr (map g xs)"
  using assms by (induction xs) auto



lemma saved_append: "saved (xs @ ys) = saved xs @ saved ys"
  by (induction xs rule: saved.induct) simp_all

lemma saved_loading: "saved (map (\<lambda>f. Stdout (Loading f)) fs) = []"
  by (induction fs) simp_all




lemma no_group_no_call: "run_all (renderer_calls B [] [] [] out) = ([], None)"
  by (simp add: renderer_calls_def)

lemma dec_simps:
  "py_int decimal = dec_int" "py_float decimal = dec_float"
  "float_sub decimal x y = x - y" "float_div decimal x y = x / y"
  "float_mul decimal x y = x * y" "np_mean decimal = exact_mean"
  by (simp_all add: decimal_def)

subsection \<open>The outcome of main\<close>

lemma main_no_data:
  "csv_files = [] \<or> load_all fs csv_files [] = [] \<Longrightarrow> snd (main B fs a csv_files) = Exit 1"
  by (auto simp: main_def Let_def)

lemma main_outcome:
  assumes "csv_files \<noteq> []" and "load_all fs csv_files [] = all_data" and "all_data \<noteq> []"
    and "run_all (renderer_calls B (latency_rows all_data) (frag_rows all_data)
                    (rss_rows all_data) (args_output a)) = (charts, r)"
  shows "snd (main B fs a csv_files) = (case r of None \<Rightarrow> Exit 0 | Some e \<Rightarrow> Uncaught e)"
    and "saved (fst (main B fs a csv_files)) = saved charts"
  using assms by (auto simp: main_def Let_def saved_append saved_loading split: option.splits)



text \<open>
  Claim C3, as stated, fails: with one file found that holds a header and no row,
  \<^verbatim>\<open>main\<close> prints ``No data loaded'' and exits with status 1.
\<close>

theorem no_rows_exit_counterexample:
  "[''empty.csv''] \<noteq> [] \<and>
   main decimal [''empty.csv'' \<mapsto> []] example_args [''empty.csv''] =
     ([Stdout (FoundCsvFiles 1 ''benchmarks/results''), Stdout (Loading ''empty.csv''),
       Stderr NoDataLoaded], Exit 1)"
  by (simp add: main_def Let_def load_csv_def example_args_def)

text \<open>
  Claim C3, amended. \<^verbatim>\<open>main\<close> exits with status 1 when no file matches the glob and
  also when the files found hold no row at all. When at least one row is loaded, the
  run ends with status 0 unless a renderer raises, in which case the exception is not
  caught; in particular the status is 0 when all three groups are empty. So the exit
  status is 0 exactly when a file was found, a row was loaded and no renderer raised.
\<close>

theorem main_exit_status:
  "(csv_files = [] \<or> load_all fs csv_files [] = [] \<longrightarrow>
      snd (main B fs a csv_files) = Exit 1) \<and>
   (csv_files \<noteq> [] \<and> load_all fs csv_files [] = all_data \<and> all_data \<noteq> [] \<longrightarrow>
      snd (main B fs a csv_files) =
        (case snd (run_all (renderer_calls B (latency_rows all_data) (frag_rows all_data)
                              (rss_rows all_data) (args_output a))) of
           None \<Rightarrow> Exit 0
         | Some e \<Rightarrow> Uncaught e)) \<and>
   (csv_files \<noteq> [] \<and> load_all fs csv_files [] = all_data \<and> all_data \<noteq> [] \<and>
    latency_rows all_data = [] \<and> frag_rows all_data = [] \<and> rss_rows all_data = [] \<longrightarrow>
      snd (main B fs a csv_files) = Exit 0) \<and>
   (load_all fs csv_files [] = all_data \<longrightarrow>
      (exit_status (snd (main B fs a csv_files)) = 0 \<longleftrightarrow>
         csv_files \<noteq> [] \<and> all_data \<noteq> [] \<and>
         snd (run_all (renderer_calls B (latency_rows all_data) (frag_rows all_data)
                         (rss_rows all_data) (args_output a))) = None))"
proof -
  let ?r = "snd (run_all (renderer_calls B (latency_rows all_data) (frag_rows all_data)
                              (rss_rows all_data) (args_output a)))"
  have general: "snd (main B fs a csv_files) = (case ?r of None \<Rightarrow> Exit 0 | Some e \<Rightarrow> Uncaught e)"
    if "csv_files \<noteq> []" "load_all fs csv_files [] = all_data" "all_data \<noteq> []"
    using main_outcome(1) [OF that, of B a] by (metis prod.collapse)
  have empty: "snd (main B fs a csv_files) = Exit 0"
    if "csv_files \<noteq> []" "load_all fs csv_files [] = all_data" "all_data \<noteq> []"
      "latency_rows all_data = []" "frag_rows all_data = []" "rss_rows all_data = []"
    using general [OF that(1-3)] that(4-6) by (simp add: no_group_no_call)
  have status: "exit_status (snd (main B fs a csv_files)) = 0 \<longleftrightarrow>
                  csv_files \<noteq> [] \<and> all_data \<noteq> [] \<and> ?r = None"
    if loaded: "load_all fs csv_files [] = all_data"
  proof (cases "csv_files = [] \<or> all_data = []")
    case True
    then show ?thesis
      using main_no_data [of csv_files fs B a] loaded by auto
  next
    case False
    then show ?thesis
      using general loaded by (auto split: option.splits)
  qed
  from general empty status main_no_data [of csv_files fs B a] show ?thesis
    by blast
qed

theorem main_exit_status_witness:
  "snd (main decimal Map.empty example_args []) = Exit 1 \<and>
   snd (main decimal [''empty.csv'' \<mapsto> []] example_args [''empty.csv'']) = Exit 1 \<and>
   latency_rows [unclassified_row] = [] \<and> frag_rows [unclassified_row] = [] \<and>
   rss_rows [unclassified_row] = [] \<and>
   snd (main decimal [''other.csv'' \<mapsto> [unclassified_row]] example_args [''other.csv''])
     = Exit 0 \<and>
   exit_status
     (snd (main decimal [''other.csv'' \<mapsto> [unclassified_row]] example_args [''other.csv'']))
     = 0"
proof -
  have groups: "latency_rows [unclassified_row] = []" "frag_rows [unclassified_row] = []"
    "rss_rows [unclassified_row] = []"
    by (simp_all add: latency_rows_def frag_rows_def rss_rows_def unclassified_row_def)
  have loaded:
    "load_all [''other.csv'' \<mapsto> [unclassified_row]] [''other.csv''] [] = [unclassified_row]"
    "load_all [''empty.csv'' \<mapsto> []] [''empty.csv''] [] = []"
    by (simp_all add: load_csv_def)
  show ?thesis
    using main_exit_status [of "[]" Map.empty decimal example_args]
      main_exit_status [of "[''empty.csv'']" "[''empty.csv'' \<mapsto> []]" decimal example_args]
      main_exit_status [of "[''other.csv'']" "[''other.csv'' \<mapsto> [unclassified_row]]"
         decimal example_args "[unclassified_row]"]
      groups loaded
    by (simp add: no_group_no_call)
qed

subsection \<open>A malformed field\<close>









subsection \<open>Empty groups\<close>




subsection \<open>The latency group\<close>






text \<open>
  Claim C8, as stated, fails: a latency group with an \<^verbatim>\<open>alloc\<close> row and no \<^verbatim>\<open>free\<close>
  row does not always get its figure. When a percentile cell of the first \<^verbatim>\<open>alloc\<close>
  row does not convert, \<^verbatim>\<open>plot_latency_comparison\<close> raises before it draws.
\<close>

theorem malformed_alloc_row_counterexample:
  "latency_rows [bad_alloc_row] = [bad_alloc_row] \<and>
   filter (\<lambda>r. r ''op'' = Some ''alloc'') [bad_alloc_row] = [bad_alloc_row] \<and>
   filter (\<lambda>r. r ''op'' = Some ''free'') [bad_alloc_row] = [] \<and>
   plot_latency_comparison decimal [bad_alloc_row] ''docs/images'' = Inl (ValueError ''n/a'')"
  by (simp add: latency_rows_def bad_alloc_row_def plot_latency_comparison_def metrics_def
        float_get_def to_float_def dec_simps dec_float_def dec_unsigned_def dec_nat_def
        digit_of_def)

text \<open>
  Claim C8, amended. When the latency group has a row whose \<^verbatim>\<open>op\<close> is \<^verbatim>\<open>alloc\<close> and
  no row whose \<^verbatim>\<open>op\<close> is \<^verbatim>\<open>free\<close>, and the percentile cells that the first \<^verbatim>\<open>alloc\<close>
  row has convert, \<^verbatim>\<open>plot_latency_comparison\<close> saves its figure, and the four bars of
  the free series are drawn with the value zero: the series is filled, not left out.
  Here \<open>a\<close> is the first \<^verbatim>\<open>alloc\<close> row, from which the bars of the allocation series
  are read.
\<close>

theorem missing_free_row_zero_filled:
  assumes "filter (\<lambda>r. r ''op'' = Some ''alloc'') data = a # rest"
    and "filter (\<lambda>r. r ''op'' = Some ''free'') data = []"
    and "\<forall>m\<in>set metrics. \<not> bad_float B a m"
  shows "plot_latency_comparison B data out =
           Inr [Savefig (joinpath out ''latency_percentiles.png'')
                  (LatencyPercentiles (map (\<lambda>m. projr (float_get B a m)) metrics)
                     [0, 0, 0, 0]),
                Stdout (Generated (joinpath out ''latency_percentiles.png''))]"
proof -
  from assms(1) have ne: "data \<noteq> []" by auto
  have "\<forall>m\<in>set metrics. float_get B a m = Inr (projr (float_get B a m))"
    using assms(3)
    by (auto simp: float_get_def bad_float_def to_float_def split: option.splits)
  then have alloc: "comprehension (float_get B a) metrics =
                      Inr (map (\<lambda>m. projr (float_get B a m)) metrics)"
    by (rule comprehension_returns)
  have free: "comprehension (\<lambda>m. Inr 0 :: py_error + rat) metrics = Inr [0, 0, 0, 0]"
    by (simp add: metrics_def)
  show ?thesis
    using ne assms(1,2) alloc free by (simp add: plot_latency_comparison_def Let_def)
qed

theorem missing_free_row_zero_filled_witness:
  "filter (\<lambda>r. r ''op'' = Some ''alloc'') [alloc_row, later_alloc_row] =
     alloc_row # [later_alloc_row] \<and>
   filter (\<lambda>r. r ''op'' = Some ''free'') [alloc_row, later_alloc_row] = [] \<and>
   \<not> bad_float decimal alloc_row ''p50_ns'' \<and> \<not> bad_float decimal alloc_row ''p95_ns'' \<and>
   \<not> bad_float decimal alloc_row ''p99_ns'' \<and> \<not> bad_float decimal alloc_row ''p999_ns'' \<and>
   plot_latency_comparison decimal [alloc_row, later_alloc_row] ''docs/images'' =
     Inr [Savefig ''docs/images/latency_percentiles.png''
            (LatencyPercentiles [30, 110, 374, 1137] [0, 0, 0, 0]),
          Stdout (Generated ''docs/images/latency_percentiles.png'')]"
proof -
  have alloc: "filter (\<lambda>r. r ''op'' = Some ''alloc'') [alloc_row, later_alloc_row] =
                 alloc_row # [later_alloc_row]"
    and free: "filter (\<lambda>r. r ''op'' = Some ''free'') [alloc_row, later_alloc_row] = []"
    by (simp_all add: alloc_row_def later_alloc_row_def)
  have each: "\<not> bad_float decimal alloc_row ''p50_ns''"
    "\<not> bad_float decimal alloc_row ''p95_ns''" "\<not> bad_float decimal alloc_row ''p99_ns''"
    "\<not> bad_float decimal alloc_row ''p999_ns''"
    by (simp_all add: bad_float_def alloc_row_def dec_simps dec_float_def
          dec_unsigned_def dec_nat_def digit_of_def)
  then have cells: "\<forall>m\<in>set metrics. \<not> bad_float decimal alloc_row m"
    by (simp add: metrics_def)
  have bars: "map (\<lambda>m. projr (float_get decimal alloc_row m)) metrics = [30, 110, 374, 1137]"
    by (simp add: metrics_def float_get_def to_float_def alloc_row_def dec_simps dec_float_def
          dec_unsigned_def dec_nat_def digit_of_def)
  show ?thesis
    using missing_free_row_zero_filled [OF alloc free cells, of "''docs/images''"]
      alloc free each
    by (simp add: bars joinpath_def)
qed

subsection \<open>The RSS group\<close>




subsection \<open>The growth percentage\<close>

text \<open>The rounding: the binade of a number, and the nearest multiple of the unit.\<close>

lemma pow2_pos: "0 < pow2 e"
  by (simp add: pow2_def)

lemma binade_ge1:
  assumes "1 \<le> x"
  shows "pow2 (log2_floor x) \<le> x \<and> x < 2 * pow2 (log2_floor x)"
proof -
  let ?n = "\<lfloor>x\<rfloor>"
  from assms have n: "0 < ?n" by simp
  from bitlen_bounds [OF n]
  have lo: "2 ^ nat (bitlen ?n - 1) \<le> ?n" and hi: "?n < 2 ^ nat (bitlen ?n)"
    by auto
  from n have b: "1 \<le> bitlen ?n" by (simp add: bitlen_alt_def)
  have "(of_int (2 ^ nat (bitlen ?n - 1)) :: rat) \<le> of_int ?n"
    using lo by (simp only: of_int_le_iff)
  also have "\<dots> \<le> x" by simp
  finally have L: "(2::rat) ^ nat (bitlen ?n - 1) \<le> x" by simp
  have "?n + 1 \<le> 2 ^ nat (bitlen ?n)" using hi by simp
  then have "(of_int (?n + 1) :: rat) \<le> of_int (2 ^ nat (bitlen ?n))"
    by (simp only: of_int_le_iff)
  moreover have "x < of_int (?n + 1)" by linarith
  ultimately have "x < (2::rat) ^ nat (bitlen ?n)" by simp
  moreover have "nat (bitlen ?n) = Suc (nat (bitlen ?n - 1))" using b by arith
  ultimately have H: "x < 2 * (2::rat) ^ nat (bitlen ?n - 1)" by simp
  from L H b assms show ?thesis
    by (simp add: log2_floor_def pow2_def)
qed

lemma binade_lt1:
  assumes "0 < x" and "x < 1"
  shows "pow2 (log2_floor x) \<le> x \<and> x < 2 * pow2 (log2_floor x)"
proof -
  let ?y = "1 / x"
  let ?m = "\<lceil>?y\<rceil> - 1"
  let ?k = "bitlen ?m"
  from assms have y: "1 < ?y" by simp
  then have m: "0 < ?m" by linarith
  from bitlen_bounds [OF m] have lo: "2 ^ nat (?k - 1) \<le> ?m" and hi: "?m < 2 ^ nat ?k"
    by auto
  from m have k: "1 \<le> ?k" by (simp add: bitlen_alt_def)
  have my: "of_int ?m < ?y" by linarith
  have ym: "?y \<le> of_int (?m + 1)" by simp
  have "(of_int (2 ^ nat (?k - 1)) :: rat) \<le> of_int ?m"
    using lo by (simp only: of_int_le_iff)
  with my have L: "(2::rat) ^ nat (?k - 1) < ?y" by simp
  have "?m + 1 \<le> 2 ^ nat ?k" using hi by simp
  then have "(of_int (?m + 1) :: rat) \<le> of_int (2 ^ nat ?k)"
    by (simp only: of_int_le_iff)
  with ym have "?y \<le> of_int (2 ^ nat ?k)"
    by (rule order_trans)
  moreover have "(of_int (2 ^ nat ?k) :: rat) = 2 ^ nat ?k"
    by simp
  ultimately have H: "?y \<le> (2::rat) ^ nat ?k"
    by (simp only:)
  have kk: "nat ?k = Suc (nat (?k - 1))" using k by arith
  from H assms have x_lo: "1 / 2 ^ nat ?k \<le> x"
    by (simp add: field_simps)
  from L assms have "x * 2 ^ nat (?k - 1) < 1"
    by (simp add: field_simps)
  then have x_hi: "x < 2 * (1 / 2 ^ nat ?k)"
    by (simp add: kk field_simps)
  have "log2_floor x = - ?k" using assms by (simp add: log2_floor_def)
  moreover have "pow2 (- ?k) = 1 / 2 ^ nat ?k" using k by (simp add: pow2_def)
  ultimately show ?thesis using x_lo x_hi by simp
qed

lemma binade: "0 < x \<Longrightarrow> pow2 (log2_floor x) \<le> x \<and> x < 2 * pow2 (log2_floor x)"
  using binade_ge1 [of x] binade_lt1 [of x] by (cases "1 \<le> x") auto

lemma round_half_even_nearest: "\<bar>of_int (round_half_even y) - y\<bar> \<le> 1 / 2"
proof -
  define n where "n = \<lfloor>y\<rfloor>"
  have lo: "of_int n \<le> y" and hi: "y < of_int n + 1"
    unfolding n_def by linarith+
  consider "y - of_int n < 1 / 2" | "1 / 2 < y - of_int n" | "y - of_int n = 1 / 2"
    by linarith
  then show ?thesis
  proof cases
    case 1
    then have "round_half_even y = n"
      by (simp add: round_half_even_def n_def)
    with 1 lo show ?thesis by simp
  next
    case 2
    then have "round_half_even y = n + 1"
      by (simp add: round_half_even_def n_def)
    with 2 hi show ?thesis by simp
  next
    case 3
    then have "round_half_even y = n \<or> round_half_even y = n + 1"
      by (simp add: round_half_even_def n_def Let_def)
    with 3 show ?thesis by auto
  qed
qed

text \<open>The rounding error is at most half a unit in the last place.\<close>

lemma fl_nearest:
  "\<bar>fl x - x\<bar> \<le> pow2 (log2_floor \<bar>x\<bar> - 52) / 2"
proof (cases "x = 0")
  case True
  then show ?thesis
    using pow2_pos [of "log2_floor \<bar>x\<bar> - 52"] by (simp add: fl_def)
next
  case False
  let ?u = "pow2 (log2_floor \<bar>x\<bar> - 52)"
  have u: "0 < ?u" by (rule pow2_pos)
  have "fl x - x = (of_int (round_half_even (x / ?u)) - x / ?u) * ?u"
    using False u by (simp add: fl_def Let_def field_simps)
  then have "\<bar>fl x - x\<bar> = \<bar>of_int (round_half_even (x / ?u)) - x / ?u\<bar> * ?u"
    using u by (simp add: abs_mult)
  also have "\<dots> \<le> 1 / 2 * ?u"
    using round_half_even_nearest [of "x / ?u"] u by (intro mult_right_mono) simp_all
  finally show ?thesis by simp
qed

text \<open>
  Claim C5, as stated, fails. In the arithmetic of doubles the growth percentage drawn
  for the samples 100.0, 100.0, 102.4 is 84442493013197 / 35184372088832, which Python
  prints as 2.4000000000000057: it is not 2.4, and not the double nearest to 2.4 either.
  And a non-empty sequence that starts with zero has no growth percentage:
  \<^verbatim>\<open>plot_rss_over_time\<close> raises \<^verbatim>\<open>ZeroDivisionError\<close>.
\<close>

theorem growth_example_counterexample:
  "plot_rss_over_time doubles [rss_sample_0, rss_sample_1, rss_sample_2] ''docs/images'' =
     Inr [Savefig ''docs/images/rss_over_time.png''
            (RssOverTime [0, 1, 2] [100, 100, 3602879701896397 / 35184372088832]
               (Some (100, 3602879701896397 / 35184372088832, 84442493013197 / 35184372088832))
               [4, 5, 6] [0, 3, 4]),
          Stdout (Generated ''docs/images/rss_over_time.png'')] \<and>
   (84442493013197 / 35184372088832 :: rat) \<noteq> 12 / 5 \<and>
   (84442493013197 / 35184372088832 :: rat) \<noteq> fl (12 / 5) \<and>
   plot_rss_over_time doubles [zero_rss_sample, rss_sample_1] ''docs/images'' =
     Inl ZeroDivisionError"
  by code_simp

text \<open>
  Claim C5, amended. For an RSS group whose Records convert and whose first
  \<^verbatim>\<open>rss_mib\<close> value is not zero, \<^verbatim>\<open>plot_rss_over_time\<close> returns, and the growth
  percentage it draws is ((final - initial) / initial) * 100 in the float arithmetic of
  the run, each of the three operations giving a float, where initial is the first
  value of the sequence and final the last. (For the samples 100.0, 100.0, 102.4 and
  doubles this is 84442493013197 / 35184372088832, within \<open>10\<^sup>-\<^sup>1\<^sup>4\<close> of 2.4: the
  witness.)
\<close>

theorem growth_from_first_and_last:
  assumes "data \<noteq> []"
    and "\<forall>r\<in>set data.
           \<not> isl (int_item B r ''cycle'') \<and> \<not> isl (float_item B r ''rss_mib'') \<and>
           \<not> isl (int_item B r ''slabs_allocated'') \<and> \<not> isl (int_item B r ''slabs_recycled'')"
    and "rss_values = map (\<lambda>r. projr (float_item B r ''rss_mib'')) data"
    and "hd rss_values \<noteq> 0"
  shows "plot_rss_over_time B data out =
           Inr [Savefig (joinpath out ''rss_over_time.png'')
                  (RssOverTime (map (\<lambda>r. projr (int_item B r ''cycle'')) data) rss_values
                     (Some (hd rss_values, last rss_values,
                            float_mul B
                              (float_div B (float_sub B (last rss_values) (hd rss_values))
                                 (hd rss_values))
                              100))
                     (map (\<lambda>r. projr (int_item B r ''slabs_allocated'')) data)
                     (map (\<lambda>r. projr (int_item B r ''slabs_recycled'')) data)),
                Stdout (Generated (joinpath out ''rss_over_time.png''))]"
proof -
  have cycles: "comprehension (\<lambda>r. int_item B r ''cycle'') data =
                  Inr (map (\<lambda>r. projr (int_item B r ''cycle'')) data)"
    using assms(2) by (intro comprehension_returns) simp
  have rss: "comprehension (\<lambda>r. float_item B r ''rss_mib'') data = Inr rss_values"
    unfolding assms(3) using assms(2) by (intro comprehension_returns) simp
  have allocated: "comprehension (\<lambda>r. int_item B r ''slabs_allocated'') data =
                     Inr (map (\<lambda>r. projr (int_item B r ''slabs_allocated'')) data)"
    using assms(2) by (intro comprehension_returns) simp
  have recycled: "comprehension (\<lambda>r. int_item B r ''slabs_recycled'') data =
                    Inr (map (\<lambda>r. projr (int_item B r ''slabs_recycled'')) data)"
    using assms(2) by (intro comprehension_returns) simp
  from assms(1,3) obtain v vs where vs: "rss_values = v # vs"
    by (cases rss_values) auto
  with assms(4) have "growth_annotation B rss_values =
      Inr (Some (hd rss_values, last rss_values,
                 float_mul B
                   (float_div B (float_sub B (last rss_values) (hd rss_values)) (hd rss_values))
                   100))"
    by (simp add: growth_annotation_def Let_def)
  then show ?thesis
    using assms(1) cycles rss allocated recycled
    by (simp add: plot_rss_over_time_def Let_def)
qed

theorem growth_from_first_and_last_witness:
  "[rss_sample_0, rss_sample_1, rss_sample_2] \<noteq> [] \<and>
   map (\<lambda>r. projr (float_item doubles r ''rss_mib'')) [rss_sample_0, rss_sample_1, rss_sample_2] =
     [100, 100, 3602879701896397 / 35184372088832] \<and>
   plot_rss_over_time doubles [rss_sample_0, rss_sample_1, rss_sample_2] ''docs/images'' =
     Inr [Savefig ''docs/images/rss_over_time.png''
            (RssOverTime [0, 1, 2] [100, 100, 3602879701896397 / 35184372088832]
               (Some (100, 3602879701896397 / 35184372088832, 84442493013197 / 35184372088832))
               [4, 5, 6] [0, 3, 4]),
          Stdout (Generated ''docs/images/rss_over_time.png'')] \<and>
   \<bar>84442493013197 / 35184372088832 - 12 / 5 :: rat\<bar> < 1 / 10 ^ 14"
proof -
  let ?data = "[rss_sample_0, rss_sample_1, rss_sample_2]"
  have ne: "?data \<noteq> []"
    by simp
  have conv: "\<forall>r\<in>set ?data.
           \<not> isl (int_item doubles r ''cycle'') \<and> \<not> isl (float_item doubles r ''rss_mib'') \<and>
           \<not> isl (int_item doubles r ''slabs_allocated'') \<and>
           \<not> isl (int_item doubles r ''slabs_recycled'')"
    by code_simp
  have vals: "map (\<lambda>r. projr (float_item doubles r ''rss_mib'')) ?data =
                [100, 100, 3602879701896397 / 35184372088832]"
    by code_simp
  have nz: "hd [100, 100, 3602879701896397 / 35184372088832 :: rat] \<noteq> 0"
    by simp
  have cycles: "map (\<lambda>r. projr (int_item doubles r ''cycle'')) ?data = [0, 1, 2]"
    and allocated: "map (\<lambda>r. projr (int_item doubles r ''slabs_allocated'')) ?data = [4, 5, 6]"
    and recycled: "map (\<lambda>r. projr (int_item doubles r ''slabs_recycled'')) ?data = [0, 3, 4]"
    by code_simp+
  have growth: "float_mul doubles
                  (float_div doubles
                     (float_sub doubles (3602879701896397 / 35184372088832) 100) 100) 100 =
                84442493013197 / 35184372088832"
    by code_simp
  have near: "\<bar>84442493013197 / 35184372088832 - 12 / 5 :: rat\<bar> < 1 / 10 ^ 14"
    by simp
  show ?thesis
    using growth_from_first_and_last [OF ne conv vals [symmetric] nz, of "''docs/images''"]
    unfolding cycles allocated recycled
    using ne vals near
    by (simp add: growth joinpath_def)
qed

subsection \<open>The fragmentation group\<close>

lemma frag_sample_SomeD:
  assumes "frag_sample B r = Some s" and "r ''size_class'' = Some c"
  shows "to_int B c = Inr (sample_class s)"
    and "int_item B r ''requested'' = Inr (sample_requested s)"
    and "int_item B r ''wasted'' = Inr (sample_wasted s)"
    and "float_item B r ''efficiency_pct'' = Inr (sample_efficiency s)"
  using assms
  by (auto simp: frag_sample_def to_int_def to_float_def int_item_def float_item_def
        getitem_def split: option.splits)

lemma group_rows_samples:
  assumes "map (frag_sample B) (filter (\<lambda>r. r ''size_class'' \<noteq> None) data) = map Some samples"
  shows "group_rows B m data = Inr (foldl add_one m samples)"
  using assms
proof (induction data arbitrary: m samples)
  case Nil
  then show ?case by simp
next
  case (Cons r data)
  show ?case
  proof (cases "r ''size_class''")
    case None
    with Cons show ?thesis by simp
  next
    case (Some c)
    with Cons.prems obtain s rest where samples: "samples = s # rest"
      and s: "frag_sample B r = Some s"
      and rest: "map (frag_sample B) (filter (\<lambda>r. r ''size_class'' \<noteq> None) data) =
                   map Some rest"
      by (cases samples) auto
    show ?thesis
      using Some samples frag_sample_SomeD [OF s Some] Cons.IH [OF rest]
      by (simp add: add_one_def)
  qed
qed

lemma agg_of_Nil: "agg_of [] sc = \<lparr>requested = [], wasted = [], efficiency = []\<rparr>"
  by (simp add: agg_of_def)

lemma agg_of_add_one:
  "agg_of (add_one m s) sc =
     (if sc = sample_class s
      then \<lparr>requested = requested (agg_of m sc) @ [sample_requested s],
            wasted = wasted (agg_of m sc) @ [sample_wasted s],
            efficiency = efficiency (agg_of m sc) @ [sample_efficiency s]\<rparr>
      else agg_of m sc)"
  by (simp add: agg_of_def add_one_def add_sample_def Let_def update_conv')

text \<open>No overwrite: the entry of a class holds the values of all its Records, in order.\<close>

lemma agg_of_foldl:
  "agg_of (foldl add_one m samples) sc =
     \<lparr>requested = requested (agg_of m sc) @
                    map sample_requested (filter (\<lambda>s. sample_class s = sc) samples),
      wasted = wasted (agg_of m sc) @
                 map sample_wasted (filter (\<lambda>s. sample_class s = sc) samples),
      efficiency = efficiency (agg_of m sc) @
                     map sample_efficiency (filter (\<lambda>s. sample_class s = sc) samples)\<rparr>"
  by (induction samples arbitrary: m) (simp_all add: agg_of_add_one)

lemma keys_add_one: "fst ` set (add_one m s) = insert (sample_class s) (fst ` set m)"
  by (simp add: add_one_def add_sample_def Let_def dom_update)

lemma keys_foldl:
  "fst ` set (foldl add_one m samples) = fst ` set m \<union> sample_class ` set samples"
  by (induction samples arbitrary: m) (auto simp: keys_add_one)

lemma distinct_add_one: "distinct (map fst m) \<Longrightarrow> distinct (map fst (add_one m s))"
  by (simp add: add_one_def add_sample_def Let_def distinct_update)

lemma distinct_foldl:
  "distinct (map fst m) \<Longrightarrow> distinct (map fst (foldl add_one m samples))"
  by (induction samples arbitrary: m) (simp_all add: distinct_add_one)

lemma class_item_present: "sc \<in> fst ` set m \<Longrightarrow> class_item m sc = Inr (agg_of m sc)"
  by (auto simp: class_item_def agg_of_def map_of_eq_None_iff split: option.splits)

lemma sorted_keys:
  "sort (map fst (foldl add_one [] samples)) = spec_size_classes samples"
proof -
  let ?m = "foldl add_one [] samples"
  have "distinct (map fst ?m)"
    by (rule distinct_foldl) simp
  then have "distinct (sort (map fst ?m))"
    by simp
  moreover have "set (sort (map fst ?m)) = set (spec_size_classes samples)"
    by (simp add: spec_size_classes_def keys_foldl)
  ultimately show ?thesis
    unfolding spec_size_classes_def
    by (intro sorted_distinct_set_unique) simp_all
qed

text \<open>
  Claim C6, as stated, fails: the grouping loop converts \<^verbatim>\<open>requested\<close> as well, so the
  two Records of the example, with a size class, wasted bytes and an efficiency and
  nothing else, form a fragmentation group for which no mean is computed:
  \<^verbatim>\<open>plot_fragmentation\<close> raises \<^verbatim>\<open>KeyError\<close>.
\<close>

theorem example_without_requested_counterexample:
  "frag_rows [frag_row_c, frag_row_d] = [frag_row_c, frag_row_d] \<and>
   plot_fragmentation decimal [frag_row_c, frag_row_d] ''docs/images'' =
     Inl (KeyError (StrKey ''requested''))"
  by (simp add: frag_rows_def frag_row_c_def frag_row_d_def plot_fragmentation_def
        to_int_def int_item_def getitem_def dec_simps dec_int_def dec_nat_def digit_of_def)

text \<open>
  Claim C6, amended. For a fragmentation group in which every Record that has a
  \<^verbatim>\<open>size_class\<close> has the four fields \<^verbatim>\<open>size_class\<close>, \<^verbatim>\<open>requested\<close>, \<^verbatim>\<open>wasted\<close>
  and \<^verbatim>\<open>efficiency_pct\<close>, all of which convert, \<^verbatim>\<open>plot_fragmentation\<close> returns and
  draws, for each distinct size-class integer, the mean of \<^verbatim>\<open>wasted\<close> and the mean of
  \<^verbatim>\<open>efficiency_pct\<close> over all the Records of the class, duplicates included; the
  classes are in ascending order, each once. Here \<open>samples\<close> are the Records of the
  group that have a \<^verbatim>\<open>size_class\<close>, converted, in arrival order (the loop skips a
  Record without \<^verbatim>\<open>size_class\<close>).
\<close>

theorem fragmentation_means_per_size_class:
  assumes "data \<noteq> []"
    and "map (frag_sample B) (filter (\<lambda>r. r ''size_class'' \<noteq> None) data) = map Some samples"
  shows "plot_fragmentation B data out =
           Inr [Savefig (joinpath out ''fragmentation.png'')
                  (Fragmentation (spec_size_classes samples)
                     (map (spec_mean_wasted B samples) (spec_size_classes samples))
                     (map (spec_mean_efficiency B samples) (spec_size_classes samples))),
                Stdout (Generated (joinpath out ''fragmentation.png''))] \<and>
         sorted_wrt (<) (spec_size_classes samples) \<and>
         set (spec_size_classes samples) = sample_class ` set samples"
proof -
  let ?m = "foldl add_one [] samples"
  let ?classes = "spec_size_classes samples"
  have grouped: "group_rows B [] data = Inr ?m"
    using assms(2) by (rule group_rows_samples)
  have keys: "set ?classes = fst ` set ?m"
    by (simp add: spec_size_classes_def keys_foldl)
  have "\<forall>sc\<in>set ?classes.
          (case class_item ?m sc of Inl e \<Rightarrow> Inl e
           | Inr a \<Rightarrow> Inr (np_mean B (map of_int (wasted a)))) =
          Inr (spec_mean_wasted B samples sc)"
    by (simp add: keys class_item_present agg_of_foldl agg_of_Nil spec_mean_wasted_def comp_def)
  then have waste: "comprehension
            (\<lambda>sc. case class_item ?m sc of Inl e \<Rightarrow> Inl e
                  | Inr a \<Rightarrow> Inr (np_mean B (map of_int (wasted a)))) ?classes =
          Inr (map (spec_mean_wasted B samples) ?classes)"
    by (rule comprehension_returns)
  have "\<forall>sc\<in>set ?classes.
          (case class_item ?m sc of Inl e \<Rightarrow> Inl e
           | Inr a \<Rightarrow> Inr (np_mean B (efficiency a))) =
          Inr (spec_mean_efficiency B samples sc)"
    by (simp add: keys class_item_present agg_of_foldl agg_of_Nil spec_mean_efficiency_def)
  then have eff: "comprehension
            (\<lambda>sc. case class_item ?m sc of Inl e \<Rightarrow> Inl e
                  | Inr a \<Rightarrow> Inr (np_mean B (efficiency a))) ?classes =
          Inr (map (spec_mean_efficiency B samples) ?classes)"
    by (rule comprehension_returns)
  have plot: "plot_fragmentation B data out =
           Inr [Savefig (joinpath out ''fragmentation.png'')
                  (Fragmentation ?classes (map (spec_mean_wasted B samples) ?classes)
                     (map (spec_mean_efficiency B samples) ?classes)),
                Stdout (Generated (joinpath out ''fragmentation.png''))]"
    using assms(1) grouped waste eff
    by (simp add: plot_fragmentation_def sorted_keys Let_def)
  have "sorted_wrt (<) ?classes"
    by (simp add: spec_size_classes_def strict_sorted_iff)
  with plot show ?thesis
    by (simp add: spec_size_classes_def)
qed

text \<open>
  The example of the claim: two Records of size class 64, with 10 and 20 wasted bytes
  and efficiencies 90 and 80, and with a \<^verbatim>\<open>requested\<close> cell each, give the single class
  64 with mean waste 15 and mean efficiency 85.
\<close>

theorem fragmentation_means_per_size_class_witness:
  "[frag_row_a, frag_row_b] \<noteq> [] \<and>
   map (frag_sample decimal) (filter (\<lambda>r. r ''size_class'' \<noteq> None) [frag_row_a, frag_row_b]) =
     map Some [Sample 64 54 10 90, Sample 64 44 20 80] \<and>
   plot_fragmentation decimal [frag_row_a, frag_row_b] ''docs/images'' =
     Inr [Savefig ''docs/images/fragmentation.png'' (Fragmentation [64] [15] [85]),
          Stdout (Generated ''docs/images/fragmentation.png'')]"
proof -
  have ne: "[frag_row_a, frag_row_b] \<noteq> []"
    by simp
  have samples: "map (frag_sample decimal)
                   (filter (\<lambda>r. r ''size_class'' \<noteq> None) [frag_row_a, frag_row_b]) =
                 map Some [Sample 64 54 10 90, Sample 64 44 20 80]"
    by (simp add: frag_sample_def frag_row_a_def frag_row_b_def dec_simps dec_int_def
          dec_float_def dec_unsigned_def dec_nat_def digit_of_def)
  show ?thesis
    using fragmentation_means_per_size_class [OF ne samples, of "''docs/images''"] ne samples
    by (simp add: spec_size_classes_def spec_mean_wasted_def spec_mean_efficiency_def
          dec_simps exact_mean_def joinpath_def)
qed

end
